theory Spec2Isabelle
  imports Complex_Main
begin

section \<open>The Profile screen of gobarber-mobile\<close>

text \<open>
  A shallow embedding of \<^verbatim>\<open>src/pages/Profile/index.tsx\<close>: the form data, the Yup
  schema built in \<^verbatim>\<open>handleProfile\<close>, the payload sent to \<^verbatim>\<open>PUT /profile\<close>, and the two
  avatar callbacks. Everything the component does to its collaborators (form handle,
  session store, alert, navigation, HTTP client, image picker) is written to a trace of
  effects, in the order of the calls, and mirrored in a record of the screen's state.
\<close>

subsection \<open>Data\<close>

type_synonym path = string
type_synonym message = string

text \<open>\<^verbatim>\<open>interface ProfileFormData\<close>: five string fields.\<close>

record ProfileFormData =
  name :: string
  email :: string
  old_password :: string
  password :: string
  password_confirmation :: string

text \<open>
  The session user of \<^verbatim>\<open>useAuth()\<close>. The component reads \<^verbatim>\<open>user.id\<close> and
  \<^verbatim>\<open>user.avatar_url\<close>, and hands the whole record to the form as initial data.
\<close>

record user =
  user_id :: string
  user_name :: string
  user_email :: string
  avatar_url :: string

text \<open>
  What the body of \<^verbatim>\<open>handleProfile\<close> can throw: a \<^verbatim>\<open>Yup.ValidationError\<close>
  carrying its \<^verbatim>\<open>inner\<close> list of (path, message) errors, or anything else (a rejected
  HTTP request).
\<close>

datatype exn = ValidationError "(path \<times> message) list" | OtherError string

text \<open>The object appended to the \<^verbatim>\<open>FormData\<close>: \<^verbatim>\<open>{type, name, uri}\<close>.\<close>

record file_part =
  file_type :: string
  file_name :: string
  file_uri :: "string option"

text \<open>A \<^verbatim>\<open>FormData\<close> is the list of its appended (field, value) entries.\<close>

type_synonym form_data = "(string \<times> file_part) list"

text \<open>
  The image picker's options and the response it hands to the callback. On a
  cancellation the library sets \<^verbatim>\<open>didCancel\<close> and leaves \<^verbatim>\<open>uri\<close> undefined.
\<close>

record picker_options =
  mediaType :: string
  saveToPhotos :: "bool option"
  quality :: rat

record picker_response =
  didCancel :: bool
  uri :: "string option"

subsection \<open>Effects and state\<close>

datatype effect =
    SetErrors "path \<rightharpoonup> message"
  | ApiPut string "(string \<times> string) list"
  | ApiPatch string form_data
  | UpdateUser user
  | AlertAlert string "string option"
  | GoBack
  | SetShowModalUpdateAvatar bool
  | LaunchCamera picker_options
  | LaunchImageLibrary picker_options

record state =
  form_values :: ProfileFormData
  form_errors :: "path \<rightharpoonup> message"
  session_user :: user
  showModalUpdateAvatar :: bool
  trace :: "effect list"

text \<open>
  What the outside world answers: Yup's e-mail pattern, the two HTTP endpoints, and
  what the user does in the picker.
\<close>

record env =
  is_email :: "string \<Rightarrow> bool"
  api_put :: "string \<Rightarrow> (string \<times> string) list \<Rightarrow> exn + user"
  api_patch :: "string \<Rightarrow> form_data \<Rightarrow> exn + user"
  launchCamera :: "picker_options \<Rightarrow> picker_response"
  launchImageLibrary :: "picker_options \<Rightarrow> picker_response"

subsection \<open>The messages of the source\<close>

text \<open>The accented letters are written as their UTF-8 bytes.\<close>

definition msg_nome_obrigatorio :: message where
  "msg_nome_obrigatorio = ''Nome obrigat'' @ [CHR 0xC3, CHR 0xB3] @ ''rio''"

definition msg_email_obrigatorio :: message where
  "msg_email_obrigatorio = ''E-mail obrigat'' @ [CHR 0xC3, CHR 0xB3] @ ''rio''"

definition msg_email_valido :: message where
  "msg_email_valido = ''Digite um e-mail v'' @ [CHR 0xC3, CHR 0xA1] @ ''lido''"

definition msg_campo_obrigatorio :: message where
  "msg_campo_obrigatorio = ''Campo obrigat'' @ [CHR 0xC3, CHR 0xB3] @ ''rio''"

definition msg_confirmacao_incorreta :: message where
  "msg_confirmacao_incorreta =
     ''Confirma'' @ [CHR 0xC3, CHR 0xA7, CHR 0xC3, CHR 0xA3] @ ''o incorreta''"

definition msg_perfil_atualizado :: string where
  "msg_perfil_atualizado = ''Perfil atualizado com sucesso!''"

definition msg_erro_titulo :: string where
  "msg_erro_titulo =
     ''Erro na atualiza'' @ [CHR 0xC3, CHR 0xA7, CHR 0xC3, CHR 0xA3] @ ''o do perfil''"

definition msg_erro_corpo :: string where
  "msg_erro_corpo = ''Ocorreu um erro ao atualizar seu perfil, tente novamente.''"

subsection \<open>Yup string schemas\<close>

text \<open>
  A string schema, resolved against the parent object and run on the field's value,
  gives the messages of the tests that fail.
\<close>

type_synonym 'o string_schema = "'o \<Rightarrow> string \<Rightarrow> message list"

text \<open>\<^verbatim>\<open>Yup.string()\<close>: no test.\<close>

definition yup_string :: "'o string_schema" where
  "yup_string parent v = []"

text \<open>\<^verbatim>\<open>.required(msg)\<close>: a string is present when it is not empty.\<close>

definition yup_required :: "message \<Rightarrow> 'o string_schema \<Rightarrow> 'o string_schema" where
  "yup_required msg s parent v = s parent v @ (if v = [] then [msg] else [])"

text \<open>
  \<^verbatim>\<open>.email(msg)\<close>: the value matches Yup's e-mail pattern; the empty string is
  left to \<^verbatim>\<open>required\<close>.
\<close>

definition yup_email :: "(string \<Rightarrow> bool) \<Rightarrow> message \<Rightarrow> 'o string_schema \<Rightarrow> 'o string_schema" where
  "yup_email pat msg s parent v =
     s parent v @ (if v \<noteq> [] \<and> \<not> pat v then [msg] else [])"

text \<open>
  \<^verbatim>\<open>.when(key, {is, then, otherwise})\<close>: the branch chosen by \<^verbatim>\<open>is\<close> on the sibling's
  value is concatenated to the schema.
\<close>

definition yup_when ::
  "('o \<Rightarrow> string) \<Rightarrow> (string \<Rightarrow> bool) \<Rightarrow> 'o string_schema \<Rightarrow> 'o string_schema
     \<Rightarrow> 'o string_schema \<Rightarrow> 'o string_schema" where
  "yup_when key is_fn then_s otherwise_s s parent v =
     s parent v @ (if is_fn (key parent) then then_s parent v else otherwise_s parent v)"

text \<open>
  \<^verbatim>\<open>.oneOf(refs, msg)\<close>: the value is one of the referenced siblings' values. Yup runs
  this test before the schema's other tests, which run only when it passes.
\<close>

definition yup_oneOf ::
  "('o \<Rightarrow> string) list \<Rightarrow> message \<Rightarrow> 'o string_schema \<Rightarrow> 'o string_schema" where
  "yup_oneOf refs msg s parent v =
     (if v \<in> set (map (\<lambda>r. r parent) refs) then s parent v else [msg])"

text \<open>
  \<^verbatim>\<open>Yup.object().shape({...})\<close> is the list of its fields: path, accessor, schema.
  \<^verbatim>\<open>validate(data, {abortEarly: false})\<close> runs every field and throws one
  \<^verbatim>\<open>ValidationError\<close> whose \<^verbatim>\<open>inner\<close> holds all the errors; it resolves to the data
  when there is none.
\<close>

type_synonym 'o shape = "(path \<times> ('o \<Rightarrow> string) \<times> 'o string_schema) list"

definition field_errors :: "'o \<Rightarrow> path \<times> ('o \<Rightarrow> string) \<times> 'o string_schema \<Rightarrow> (path \<times> message) list" where
  "field_errors obj f = (case f of (p, get, s) \<Rightarrow> map (Pair p) (s obj (get obj)))"

definition validate :: "'o shape \<Rightarrow> 'o \<Rightarrow> exn + 'o" where
  "validate sh obj =
     (let inner = concat (map (field_errors obj) sh)
      in if inner = [] then Inr obj else Inl (ValidationError inner))"

subsection \<open>The schema of \<^verbatim>\<open>handleProfile\<close>\<close>

text \<open>\<^verbatim>\<open>is: val => !!val.length\<close>\<close>

definition is_val :: "string \<Rightarrow> bool" where
  "is_val val = (length val \<noteq> 0)"

definition schema :: "env \<Rightarrow> ProfileFormData shape" where
  "schema e =
     [(''name'', name, yup_required msg_nome_obrigatorio yup_string),
      (''email'', email,
         yup_email (is_email e) msg_email_valido
           (yup_required msg_email_obrigatorio yup_string)),
      (''old_password'', old_password, yup_string),
      (''password'', password,
         yup_when old_password is_val
           (yup_required msg_campo_obrigatorio yup_string) yup_string yup_string),
      (''password_confirmation'', password_confirmation,
         yup_oneOf [password] msg_confirmacao_incorreta
           (yup_when old_password is_val
              (yup_required msg_campo_obrigatorio yup_string) yup_string yup_string))]"

text \<open>The \<^verbatim>\<open>inner\<close> errors of validating the form data against the schema.\<close>

definition validation_inner :: "env \<Rightarrow> ProfileFormData \<Rightarrow> (path \<times> message) list" where
  "validation_inner e d = concat (map (field_errors d) (schema e))"

text \<open>
  Modelled from the spec: \<^verbatim>\<open>utils/getValidationErrors\<close> is not among the sources. The
  spec has it produce "a mapping from field name to first failing error message".
\<close>

definition getValidationErrors :: "(path \<times> message) list \<Rightarrow> (path \<rightharpoonup> message)" where
  "getValidationErrors inner = map_of inner"

subsection \<open>The payload\<close>

text \<open>A JavaScript string is truthy when it is not empty.\<close>

definition truthy :: "string \<Rightarrow> bool" where
  "truthy s = (s \<noteq> [])"

text \<open>
  \<^verbatim>\<open>const formData = {name, email, ...(old_password ? {old_password, password,
  password_confirmation} : {})}\<close>, as the list of its properties.
\<close>

definition formData :: "ProfileFormData \<Rightarrow> (string \<times> string) list" where
  "formData d =
     [(''name'', name d), (''email'', email d)] @
     (if truthy (old_password d)
      then [(''old_password'', old_password d),
            (''password'', password d),
            (''password_confirmation'', password_confirmation d)]
      else [])"

subsection \<open>The collaborators\<close>

definition emit :: "effect \<Rightarrow> state \<Rightarrow> state" where
  "emit ev st = st\<lparr>trace := trace st @ [ev]\<rparr>"

text \<open>
  \<^verbatim>\<open>formRef.current?.setErrors(errors)\<close> replaces the form's error object. The handler
  runs as the \<^verbatim>\<open>onSubmit\<close> of the mounted form, so the reference is set.
\<close>

definition setErrors :: "(path \<rightharpoonup> message) \<Rightarrow> state \<Rightarrow> state" where
  "setErrors errs st = emit (SetErrors errs) (st\<lparr>form_errors := errs\<rparr>)"

text \<open>
  Modelled from the spec: \<^verbatim>\<open>hooks/auth\<close> is not among the sources. The spec has the
  session store expose "a replace operation (write) that takes a full user record",
  the record being "replaced wholesale".
\<close>

definition updateUser :: "user \<Rightarrow> state \<Rightarrow> state" where
  "updateUser u st = emit (UpdateUser u) (st\<lparr>session_user := u\<rparr>)"

definition alert :: "string \<Rightarrow> string option \<Rightarrow> state \<Rightarrow> state" where
  "alert title body st = emit (AlertAlert title body) st"

definition goBack :: "state \<Rightarrow> state" where
  "goBack st = emit GoBack st"

text \<open>
  \<^verbatim>\<open>toggleModal\<close> is \<^verbatim>\<open>setShowModalUpdateAvatar(!showModalUpdateAvatar)\<close>, where
  \<^verbatim>\<open>showModalUpdateAvatar\<close> is the value captured by the render that created the
  callback.
\<close>

definition toggleModal :: "bool \<Rightarrow> state \<Rightarrow> state" where
  "toggleModal captured st =
     emit (SetShowModalUpdateAvatar (\<not> captured)) (st\<lparr>showModalUpdateAvatar := \<not> captured\<rparr>)"

subsection \<open>\<^verbatim>\<open>handleProfile\<close>\<close>

text \<open>The \<^verbatim>\<open>catch\<close> block.\<close>

definition catch_err :: "exn \<Rightarrow> state \<Rightarrow> state" where
  "catch_err err st =
     (case err of
        ValidationError inner \<Rightarrow> setErrors (getValidationErrors inner) st
      | OtherError _ \<Rightarrow> alert msg_erro_titulo (Some msg_erro_corpo) st)"

definition handleProfile :: "env \<Rightarrow> ProfileFormData \<Rightarrow> state \<Rightarrow> state" where
  "handleProfile e d st0 =
     (let st1 = setErrors Map.empty st0 in
      case validate (schema e) d of
        Inl err \<Rightarrow> catch_err err st1
      | Inr _ \<Rightarrow>
          (let body = formData d;
               st2 = emit (ApiPut ''/profile'' body) st1
           in case api_put e ''/profile'' body of
                Inl err \<Rightarrow> catch_err err st2
              | Inr response_data \<Rightarrow>
                  goBack (alert msg_perfil_atualizado None (updateUser response_data st2))))"

subsection \<open>The avatar callbacks\<close>

definition camera_options :: picker_options where
  "camera_options = \<lparr>mediaType = ''photo'', saveToPhotos = Some True, quality = 1 / 2\<rparr>"

definition gallery_options :: picker_options where
  "gallery_options = \<lparr>mediaType = ''photo'', saveToPhotos = None, quality = 1 / 2\<rparr>"

text \<open>
  The callback handed to \<^verbatim>\<open>launchCamera\<close>. It returns the state and, when the
  \<^verbatim>\<open>await\<close> of the request throws, the exception its promise is rejected with:
  nothing catches it.
\<close>

definition camera_callback :: "env \<Rightarrow> string \<Rightarrow> bool \<Rightarrow> picker_response \<Rightarrow> state \<Rightarrow> exn option \<times> state" where
  "camera_callback e uid captured response st =
     (let data = [(''avatar'',
                   \<lparr>file_type = ''image/jpeg'', file_name = uid @ ''.jpg'',
                    file_uri = uri response\<rparr>)];
          st1 = emit (ApiPatch ''users/avatar'' data) st
      in case api_patch e ''users/avatar'' data of
           Inl err \<Rightarrow> (Some err, st1)
         | Inr apiResponse_data \<Rightarrow>
             (None, toggleModal captured (updateUser apiResponse_data st1)))"

text \<open>The callback handed to \<^verbatim>\<open>launchImageLibrary\<close>.\<close>

definition gallery_callback :: "env \<Rightarrow> string \<Rightarrow> bool \<Rightarrow> picker_response \<Rightarrow> state \<Rightarrow> exn option \<times> state" where
  "gallery_callback e uid captured response st =
     (let data = [(''avatar'',
                   \<lparr>file_type = ''image/jpeg'', file_name = uid @ ''.jpg'',
                    file_uri = uri response\<rparr>)];
          st1 = emit (ApiPatch ''users/avatar'' data) st
      in case api_patch e ''users/avatar'' data of
           Inl err \<Rightarrow> (Some err, st1)
         | Inr apiResponse_data \<Rightarrow>
             (None, toggleModal captured (updateUser apiResponse_data st1)))"

text \<open>
  The two handlers: the picker is launched with the options, and the library calls
  the callback with its response. \<^verbatim>\<open>user.id\<close> and \<^verbatim>\<open>toggleModal\<close> are those of the
  render in which the button was pressed.
\<close>

definition updatePhotoFromCamera :: "env \<Rightarrow> state \<Rightarrow> exn option \<times> state" where
  "updatePhotoFromCamera e st =
     camera_callback e (user_id (session_user st)) (showModalUpdateAvatar st)
       (launchCamera e camera_options) (emit (LaunchCamera camera_options) st)"

definition updatePhotoFromGallery :: "env \<Rightarrow> state \<Rightarrow> exn option \<times> state" where
  "updatePhotoFromGallery e st =
     gallery_callback e (user_id (session_user st)) (showModalUpdateAvatar st)
       (launchImageLibrary e gallery_options) (emit (LaunchImageLibrary gallery_options) st)"

subsection \<open>Sample inputs\<close>

definition sample_user :: user where
  "sample_user = \<lparr>user_id = ''42'', user_name = ''Ana'', user_email = ''ana@x.com'',
     avatar_url = ''http://x/a.png''\<rparr>"

definition updated_user :: user where
  "updated_user = \<lparr>user_id = ''42'', user_name = ''Ana B'', user_email = ''ana@x.com'',
     avatar_url = ''http://x/b.jpg''\<rparr>"

definition ana :: ProfileFormData where
  "ana = \<lparr>name = ''Ana'', email = ''ana@x.com'', old_password = '''', password = '''',
     password_confirmation = ''''\<rparr>"

definition ana_new_password :: ProfileFormData where
  "ana_new_password = \<lparr>name = ''Ana'', email = ''ana@x.com'', old_password = ''123'',
     password = ''new1'', password_confirmation = ''new1''\<rparr>"

definition ana_mismatch :: ProfileFormData where
  "ana_mismatch = \<lparr>name = ''Ana'', email = ''ana@x.com'', old_password = '''',
     password = ''new1'', password_confirmation = ''new2''\<rparr>"

definition ana_wrong_confirmation :: ProfileFormData where
  "ana_wrong_confirmation = \<lparr>name = ''Ana'', email = ''ana@x.com'', old_password = ''123'',
     password = ''new1'', password_confirmation = ''new2''\<rparr>"

definition bad_input :: ProfileFormData where
  "bad_input = \<lparr>name = '''', email = ''bad'', old_password = '''', password = '''',
     password_confirmation = ''''\<rparr>"

definition has_at :: "string \<Rightarrow> bool" where
  "has_at s = (CHR ''@'' \<in> set s)"

definition put_ok :: "string \<Rightarrow> (string \<times> string) list \<Rightarrow> exn + user" where
  "put_ok url body = Inr updated_user"

definition put_fails :: "string \<Rightarrow> (string \<times> string) list \<Rightarrow> exn + user" where
  "put_fails url body = Inl (OtherError ''Request failed with status code 500'')"

definition patch_ok :: "string \<Rightarrow> form_data \<Rightarrow> exn + user" where
  "patch_ok url body = Inr updated_user"

definition patch_fails :: "string \<Rightarrow> form_data \<Rightarrow> exn + user" where
  "patch_fails url body = Inl (OtherError ''Network Error'')"

definition picked :: "picker_options \<Rightarrow> picker_response" where
  "picked opts = \<lparr>didCancel = False, uri = Some ''file:///tmp/photo.png''\<rparr>"

definition cancelled :: "picker_options \<Rightarrow> picker_response" where
  "cancelled opts = \<lparr>didCancel = True, uri = None\<rparr>"

definition env_ok :: env where
  "env_ok = \<lparr>is_email = has_at, api_put = put_ok, api_patch = patch_ok,
     launchCamera = picked, launchImageLibrary = picked\<rparr>"

definition env_down :: env where
  "env_down = \<lparr>is_email = has_at, api_put = put_fails, api_patch = patch_fails,
     launchCamera = picked, launchImageLibrary = picked\<rparr>"

definition env_cancel :: env where
  "env_cancel = \<lparr>is_email = has_at, api_put = put_ok, api_patch = patch_fails,
     launchCamera = cancelled, launchImageLibrary = cancelled\<rparr>"

definition stale_errors :: "path \<rightharpoonup> message" where
  "stale_errors = [''name'' \<mapsto> msg_nome_obrigatorio]"

definition state0 :: state where
  "state0 = \<lparr>form_values = ana, form_errors = stale_errors, session_user = sample_user,
     showModalUpdateAvatar = True, trace = []\<rparr>"

section \<open>Properties\<close>

subsection \<open>Auxiliary facts\<close>

lemmas effect_defs = emit_def setErrors_def updateUser_def alert_def goBack_def toggleModal_def

lemma validation_inner_eq:
  "validation_inner e d =
     (if name d = [] then [(''name'', msg_nome_obrigatorio)] else []) @
     (if email d = [] then [(''email'', msg_email_obrigatorio)]
      else if \<not> is_email e (email d) then [(''email'', msg_email_valido)] else []) @
     (if old_password d \<noteq> [] \<and> password d = [] then [(''password'', msg_campo_obrigatorio)] else []) @
     (if password_confirmation d \<noteq> password d
      then [(''password_confirmation'', msg_confirmacao_incorreta)]
      else if old_password d \<noteq> [] \<and> password_confirmation d = []
      then [(''password_confirmation'', msg_campo_obrigatorio)] else [])"
  by (simp add: validation_inner_def schema_def field_errors_def yup_string_def yup_required_def
      yup_email_def yup_when_def yup_oneOf_def is_val_def)

lemma validate_eq:
  "validate (schema e) d =
     (if validation_inner e d = [] then Inr d else Inl (ValidationError (validation_inner e d)))"
  by (simp add: validate_def validation_inner_def Let_def)

lemma dom_validation_inner:
  "fst ` set (validation_inner e d) =
     (if name d = [] then {''name''} else {}) \<union>
     (if email d = [] \<or> \<not> is_email e (email d) then {''email''} else {}) \<union>
     (if old_password d \<noteq> [] \<and> password d = [] then {''password''} else {}) \<union>
     (if password_confirmation d \<noteq> password d \<or> old_password d \<noteq> [] \<and> password_confirmation d = []
      then {''password_confirmation''} else {})"
  by (auto simp add: validation_inner_eq)

lemma handleProfile_invalid:
  "validation_inner e d \<noteq> [] \<Longrightarrow>
   handleProfile e d st =
     setErrors (getValidationErrors (validation_inner e d)) (setErrors Map.empty st)"
  by (simp add: handleProfile_def validate_eq catch_err_def)

lemma handleProfile_valid:
  "validation_inner e d = [] \<Longrightarrow>
   handleProfile e d st =
     (case api_put e ''/profile'' (formData d) of
        Inl err \<Rightarrow> catch_err err (emit (ApiPut ''/profile'' (formData d)) (setErrors Map.empty st))
      | Inr u \<Rightarrow> goBack (alert msg_perfil_atualizado None (updateUser u
                  (emit (ApiPut ''/profile'' (formData d)) (setErrors Map.empty st)))))"
  by (simp add: handleProfile_def validate_eq Let_def)

subsection \<open>Payload\<close>

text \<open>
  C1. The payload always holds \<^verbatim>\<open>name\<close> and \<^verbatim>\<open>email\<close> with their values. When
  \<^verbatim>\<open>old_password\<close> is not empty it also holds \<^verbatim>\<open>old_password\<close>, \<^verbatim>\<open>password\<close> and
  \<^verbatim>\<open>password_confirmation\<close> with their values, five keys in all; when it is empty,
  none of the three is a key and the payload has the two keys only.
\<close>

theorem formData_keys:
  "map_of (formData d) ''name'' = Some (name d) \<and>
   map_of (formData d) ''email'' = Some (email d) \<and>
   (old_password d \<noteq> [] \<longrightarrow>
      map_of (formData d) ''old_password'' = Some (old_password d) \<and>
      map_of (formData d) ''password'' = Some (password d) \<and>
      map_of (formData d) ''password_confirmation'' = Some (password_confirmation d) \<and>
      dom (map_of (formData d)) =
        {''name'', ''email'', ''old_password'', ''password'', ''password_confirmation''}) \<and>
   (old_password d = [] \<longrightarrow>
      map_of (formData d) ''old_password'' = None \<and>
      map_of (formData d) ''password'' = None \<and>
      map_of (formData d) ''password_confirmation'' = None \<and>
      dom (map_of (formData d)) = {''name'', ''email''})"
proof (cases "old_password d = []")
  case True
  then have "formData d = [(''name'', name d), (''email'', email d)]"
    by (simp add: formData_def truthy_def)
  with True show ?thesis by auto
next
  case False
  then have "formData d =
      [(''name'', name d), (''email'', email d), (''old_password'', old_password d),
       (''password'', password d), (''password_confirmation'', password_confirmation d)]"
    by (simp add: formData_def truthy_def)
  with False show ?thesis by auto
qed

text \<open>The two scenarios of the spec: no password change, and a password change.\<close>

theorem formData_keys_witness:
  "old_password ana_new_password \<noteq> [] \<and> old_password ana = [] \<and>
   formData ana = [(''name'', ''Ana''), (''email'', ''ana@x.com'')] \<and>
   map_of (formData ana_new_password) ''password'' = Some ''new1'' \<and>
   map_of (formData ana) ''password'' = None"
  using formData_keys [of ana] formData_keys [of ana_new_password]
  by (simp add: formData_def truthy_def ana_def ana_new_password_def)

subsection \<open>Validation\<close>

text \<open>
  C2. When \<^verbatim>\<open>old_password\<close> is empty, no error is ever reported on \<^verbatim>\<open>password\<close>,
  and \<^verbatim>\<open>password_confirmation\<close> never gets the "required" message: it has no error
  at all when it equals \<^verbatim>\<open>password\<close> (both may be empty). When it differs from
  \<^verbatim>\<open>password\<close>, validation fails and the mismatch message is among the errors, on
  \<^verbatim>\<open>password_confirmation\<close>.
\<close>

theorem validate_old_password_empty:
  assumes "old_password d = []"
  shows "''password'' \<notin> fst ` set (validation_inner e d) \<and>
     (''password_confirmation'', msg_campo_obrigatorio) \<notin> set (validation_inner e d) \<and>
     (password_confirmation d = password d \<longrightarrow>
        ''password_confirmation'' \<notin> fst ` set (validation_inner e d)) \<and>
     (password_confirmation d \<noteq> password d \<longrightarrow>
        validate (schema e) d = Inl (ValidationError (validation_inner e d)) \<and>
        (''password_confirmation'', msg_confirmacao_incorreta) \<in> set (validation_inner e d))"
  using assms
  by (auto simp add: validate_eq validation_inner_eq
      msg_campo_obrigatorio_def msg_confirmacao_incorreta_def)

theorem validate_old_password_empty_witness:
  "old_password ana_mismatch = [] \<and> old_password ana = [] \<and>
   password_confirmation ana_mismatch \<noteq> password ana_mismatch \<and>
   password_confirmation ana = password ana \<and>
   validate (schema env_ok) ana_mismatch =
     Inl (ValidationError [(''password_confirmation'', msg_confirmacao_incorreta)]) \<and>
   (''password_confirmation'', msg_confirmacao_incorreta)
     \<in> set (validation_inner env_ok ana_mismatch) \<and>
   ''password_confirmation'' \<notin> fst ` set (validation_inner env_ok ana)"
  using validate_old_password_empty [of ana_mismatch env_ok]
    validate_old_password_empty [of ana env_ok]
  by (simp add: validation_inner_eq ana_mismatch_def ana_def env_ok_def has_at_def)

text \<open>
  C3. When \<^verbatim>\<open>old_password\<close> is not empty: an empty \<^verbatim>\<open>password\<close> makes validation
  fail with an error on \<^verbatim>\<open>password\<close>; an empty \<^verbatim>\<open>password_confirmation\<close>, or one
  that differs from \<^verbatim>\<open>password\<close>, makes it fail with an error on
  \<^verbatim>\<open>password_confirmation\<close>; and an input with both non-empty and equal, a non-empty
  name and a non-empty well-formed e-mail passes.
\<close>

theorem validate_old_password_given:
  assumes "old_password d \<noteq> []"
  shows "(password d = [] \<longrightarrow>
            validate (schema e) d = Inl (ValidationError (validation_inner e d)) \<and>
            ''password'' \<in> fst ` set (validation_inner e d)) \<and>
         (password_confirmation d = [] \<or> password_confirmation d \<noteq> password d \<longrightarrow>
            validate (schema e) d = Inl (ValidationError (validation_inner e d)) \<and>
            ''password_confirmation'' \<in> fst ` set (validation_inner e d)) \<and>
         (password d \<noteq> [] \<and> password_confirmation d \<noteq> [] \<and>
          password_confirmation d = password d \<and>
          name d \<noteq> [] \<and> email d \<noteq> [] \<and> is_email e (email d) \<longrightarrow>
            validate (schema e) d = Inr d)"
  using assms by (auto simp add: validate_eq validation_inner_eq)

theorem validate_old_password_given_witness:
  "old_password ana_new_password \<noteq> [] \<and> old_password ana_wrong_confirmation \<noteq> [] \<and>
   is_email env_ok (email ana_new_password) \<and>
   password_confirmation ana_new_password = password ana_new_password \<and>
   password_confirmation ana_wrong_confirmation \<noteq> password ana_wrong_confirmation \<and>
   validate (schema env_ok) ana_new_password = Inr ana_new_password \<and>
   validate (schema env_ok) ana_wrong_confirmation =
     Inl (ValidationError [(''password_confirmation'', msg_confirmacao_incorreta)])"
  using validate_old_password_given [of ana_new_password env_ok]
    validate_old_password_given [of ana_wrong_confirmation env_ok]
  by (simp add: validation_inner_eq ana_new_password_def ana_wrong_confirmation_def
      env_ok_def has_at_def)

subsection \<open>Submission\<close>

text \<open>
  C4. When validation fails, it throws the errors of all the fields: the form's
  error object becomes the mapping of exactly the failing fields, each to its message,
  where each of the four constrained fields is present exactly when its own rule
  fails, whatever the other fields are. The only effects are the two \<^verbatim>\<open>setErrors\<close>
  calls: no request is made, and the session user is untouched. For the input with an
  empty name and the e-mail \<^verbatim>\<open>bad\<close> (which the e-mail pattern rejects), validation
  fails with an error on \<^verbatim>\<open>name\<close> and one on \<^verbatim>\<open>email\<close>.
\<close>

theorem handleProfile_validation_failed:
  "(validate (schema e) d = Inl err \<longrightarrow>
      err = ValidationError (validation_inner e d) \<and>
      trace (handleProfile e d st) =
        trace st @ [SetErrors Map.empty, SetErrors (getValidationErrors (validation_inner e d))] \<and>
      form_errors (handleProfile e d st) = getValidationErrors (validation_inner e d) \<and>
      dom (form_errors (handleProfile e d st)) = fst ` set (validation_inner e d) \<and>
      ((''name'' \<in> dom (form_errors (handleProfile e d st))) = (name d = [])) \<and>
      ((''email'' \<in> dom (form_errors (handleProfile e d st))) =
         (email d = [] \<or> \<not> is_email e (email d))) \<and>
      ((''password'' \<in> dom (form_errors (handleProfile e d st))) =
         (old_password d \<noteq> [] \<and> password d = [])) \<and>
      ((''password_confirmation'' \<in> dom (form_errors (handleProfile e d st))) =
         (password_confirmation d \<noteq> password d \<or>
          old_password d \<noteq> [] \<and> password_confirmation d = [])) \<and>
      session_user (handleProfile e d st) = session_user st) \<and>
   (\<not> is_email e ''bad'' \<longrightarrow>
      validate (schema e) bad_input =
        Inl (ValidationError [(''name'', msg_nome_obrigatorio), (''email'', msg_email_valido)]) \<and>
      form_errors (handleProfile e bad_input st) ''name'' = Some msg_nome_obrigatorio \<and>
      form_errors (handleProfile e bad_input st) ''email'' = Some msg_email_valido \<and>
      trace (handleProfile e bad_input st) =
        trace st @ [SetErrors Map.empty,
          SetErrors (getValidationErrors
            [(''name'', msg_nome_obrigatorio), (''email'', msg_email_valido)])])"
proof (intro conjI impI)
  assume bad: "\<not> is_email e ''bad''"
  then have inner: "validation_inner e bad_input =
      [(''name'', msg_nome_obrigatorio), (''email'', msg_email_valido)]"
    by (simp add: validation_inner_eq bad_input_def)
  show "validate (schema e) bad_input =
      Inl (ValidationError [(''name'', msg_nome_obrigatorio), (''email'', msg_email_valido)])"
    by (simp add: validate_eq inner)
  have hp: "handleProfile e bad_input st =
      setErrors (getValidationErrors [(''name'', msg_nome_obrigatorio), (''email'', msg_email_valido)])
        (setErrors Map.empty st)"
    using handleProfile_invalid [of e bad_input st] by (simp add: inner)
  show "form_errors (handleProfile e bad_input st) ''name'' = Some msg_nome_obrigatorio"
    by (simp add: hp effect_defs getValidationErrors_def)
  show "form_errors (handleProfile e bad_input st) ''email'' = Some msg_email_valido"
    by (simp add: hp effect_defs getValidationErrors_def)
  show "trace (handleProfile e bad_input st) =
        trace st @ [SetErrors Map.empty,
          SetErrors (getValidationErrors
            [(''name'', msg_nome_obrigatorio), (''email'', msg_email_valido)])]"
    by (simp add: hp effect_defs)
next
  assume "validate (schema e) d = Inl err"
  then have ne: "validation_inner e d \<noteq> []" and err: "err = ValidationError (validation_inner e d)"
    by (auto simp add: validate_eq split: if_splits)
  note hp = handleProfile_invalid [OF ne, of st]
  show "err = ValidationError (validation_inner e d)" by (rule err)
  show "trace (handleProfile e d st) =
        trace st @ [SetErrors Map.empty, SetErrors (getValidationErrors (validation_inner e d))]"
    by (simp add: hp effect_defs)
  show fe: "form_errors (handleProfile e d st) = getValidationErrors (validation_inner e d)"
    by (simp add: hp effect_defs)
  show dm: "dom (form_errors (handleProfile e d st)) = fst ` set (validation_inner e d)"
    by (simp add: fe getValidationErrors_def dom_map_of_conv_image_fst)
  show "(''name'' \<in> dom (form_errors (handleProfile e d st))) = (name d = [])"
    by (simp add: dm dom_validation_inner)
  show "(''email'' \<in> dom (form_errors (handleProfile e d st))) =
         (email d = [] \<or> \<not> is_email e (email d))"
    by (simp add: dm dom_validation_inner)
  show "(''password'' \<in> dom (form_errors (handleProfile e d st))) =
         (old_password d \<noteq> [] \<and> password d = [])"
    by (simp add: dm dom_validation_inner)
  show "(''password_confirmation'' \<in> dom (form_errors (handleProfile e d st))) =
         (password_confirmation d \<noteq> password d \<or>
          old_password d \<noteq> [] \<and> password_confirmation d = [])"
    by (simp add: dm dom_validation_inner)
  show "session_user (handleProfile e d st) = session_user st"
    by (simp add: hp effect_defs)
qed

theorem handleProfile_validation_failed_witness:
  "\<not> is_email env_ok ''bad'' \<and>
   validate (schema env_ok) bad_input =
     Inl (ValidationError [(''name'', msg_nome_obrigatorio), (''email'', msg_email_valido)]) \<and>
   dom (form_errors (handleProfile env_ok bad_input state0)) = {''name'', ''email''} \<and>
   form_errors (handleProfile env_ok bad_input state0) ''name'' = Some msg_nome_obrigatorio \<and>
   form_errors (handleProfile env_ok bad_input state0) ''email'' = Some msg_email_valido \<and>
   session_user (handleProfile env_ok bad_input state0) = sample_user \<and>
   trace (handleProfile env_ok bad_input state0) =
     [SetErrors Map.empty,
      SetErrors (getValidationErrors
        [(''name'', msg_nome_obrigatorio), (''email'', msg_email_valido)])]"
proof -
  have bad: "\<not> is_email env_ok ''bad''"
    by (simp add: env_ok_def has_at_def)
  have inner: "validation_inner env_ok bad_input =
      [(''name'', msg_nome_obrigatorio), (''email'', msg_email_valido)]"
    using bad by (simp add: validation_inner_eq bad_input_def)
  have st: "session_user state0 = sample_user" "trace state0 = []"
    by (simp_all add: state0_def)
  show ?thesis
    using bad handleProfile_validation_failed [of env_ok bad_input
        "ValidationError [(''name'', msg_nome_obrigatorio), (''email'', msg_email_valido)]" state0]
    by (simp add: inner st getValidationErrors_def)
qed

text \<open>
  C5. When validation passes and the \<^verbatim>\<open>PUT /profile\<close> request is rejected with
  anything but a validation error, the effects are, in order: the reset of the form
  errors, the request, and one alert with the generic failure title and text. The
  session user, the form's field values and the modal flag are as before.
\<close>

theorem handleProfile_remote_failure:
  assumes "validate (schema e) d = Inr d"
    and "api_put e ''/profile'' (formData d) = Inl err"
    and "\<forall>inner. err \<noteq> ValidationError inner"
  shows "trace (handleProfile e d st) =
           trace st @ [SetErrors Map.empty, ApiPut ''/profile'' (formData d),
                       AlertAlert msg_erro_titulo (Some msg_erro_corpo)] \<and>
         session_user (handleProfile e d st) = session_user st \<and>
         form_values (handleProfile e d st) = form_values st \<and>
         showModalUpdateAvatar (handleProfile e d st) = showModalUpdateAvatar st"
proof -
  from assms(1) have "validation_inner e d = []"
    by (simp add: validate_eq split: if_splits)
  note hp = handleProfile_valid [OF this, of st]
  from assms(3) obtain m where "err = OtherError m" by (cases err) auto
  with assms(2) hp show ?thesis
    by (simp add: catch_err_def effect_defs)
qed

theorem handleProfile_remote_failure_witness:
  "validate (schema env_down) ana = Inr ana \<and>
   api_put env_down ''/profile'' (formData ana) =
     Inl (OtherError ''Request failed with status code 500'') \<and>
   trace (handleProfile env_down ana state0) =
     [SetErrors Map.empty, ApiPut ''/profile'' [(''name'', ''Ana''), (''email'', ''ana@x.com'')],
      AlertAlert msg_erro_titulo (Some msg_erro_corpo)] \<and>
   session_user (handleProfile env_down ana state0) = sample_user \<and>
   form_values (handleProfile env_down ana state0) = ana"
proof -
  have inner: "validation_inner env_down ana = []"
    by (simp add: validation_inner_eq ana_def env_down_def has_at_def)
  have body: "formData ana = [(''name'', ''Ana''), (''email'', ''ana@x.com'')]"
    by (simp add: formData_def truthy_def ana_def)
  have put: "api_put env_down ''/profile'' [(''name'', ''Ana''), (''email'', ''ana@x.com'')] =
      Inl (OtherError ''Request failed with status code 500'')"
    by (simp add: env_down_def put_fails_def)
  have st: "session_user state0 = sample_user" "trace state0 = []" "form_values state0 = ana"
    by (simp_all add: state0_def)
  show ?thesis
    using handleProfile_remote_failure [of env_down ana
        "OtherError ''Request failed with status code 500''" state0]
    by (simp add: validate_eq inner body put st)
qed

text \<open>
  C6. When validation passes and the \<^verbatim>\<open>PUT /profile\<close> request succeeds, the effects
  after the request are exactly, in this order and once each: the session user is
  replaced with the response body, the success alert is shown, and navigation goes
  back. Afterwards the session user is the response body.
\<close>

theorem handleProfile_success:
  assumes "validate (schema e) d = Inr d"
    and "api_put e ''/profile'' (formData d) = Inr response_data"
  shows "trace (handleProfile e d st) =
           trace st @ [SetErrors Map.empty, ApiPut ''/profile'' (formData d),
                       UpdateUser response_data, AlertAlert msg_perfil_atualizado None, GoBack] \<and>
         session_user (handleProfile e d st) = response_data \<and>
         form_errors (handleProfile e d st) = Map.empty"
proof -
  from assms(1) have "validation_inner e d = []"
    by (simp add: validate_eq split: if_splits)
  note hp = handleProfile_valid [OF this, of st]
  with assms(2) show ?thesis
    by (simp add: effect_defs)
qed

theorem handleProfile_success_witness:
  "validate (schema env_ok) ana = Inr ana \<and>
   api_put env_ok ''/profile'' (formData ana) = Inr updated_user \<and>
   trace (handleProfile env_ok ana state0) =
     [SetErrors Map.empty, ApiPut ''/profile'' [(''name'', ''Ana''), (''email'', ''ana@x.com'')],
      UpdateUser updated_user, AlertAlert msg_perfil_atualizado None, GoBack] \<and>
   session_user (handleProfile env_ok ana state0) = updated_user"
proof -
  have inner: "validation_inner env_ok ana = []"
    by (simp add: validation_inner_eq ana_def env_ok_def has_at_def)
  have body: "formData ana = [(''name'', ''Ana''), (''email'', ''ana@x.com'')]"
    by (simp add: formData_def truthy_def ana_def)
  have put: "api_put env_ok ''/profile'' [(''name'', ''Ana''), (''email'', ''ana@x.com'')] =
      Inr updated_user"
    by (simp add: env_ok_def put_ok_def)
  have st: "trace state0 = []"
    by (simp add: state0_def)
  show ?thesis
    using handleProfile_success [of env_ok ana updated_user state0]
    by (simp add: validate_eq inner body put st)
qed

text \<open>
  C10. The first effect of every submission is the reset of the form's error object
  to the empty one, and the error object after the submission does not depend on the
  one before it: it is the mapping of the current validation's errors when validation
  fails, and it is empty when validation passes, whether the request then succeeds or
  is rejected (with anything but a validation error).
\<close>

theorem handleProfile_resets_errors:
  "(\<exists>rest. trace (handleProfile e d st) = trace st @ SetErrors Map.empty # rest) \<and>
   form_errors (handleProfile e d (st\<lparr>form_errors := stale\<rparr>)) = form_errors (handleProfile e d st) \<and>
   (validate (schema e) d = Inl err \<longrightarrow>
      form_errors (handleProfile e d st) = getValidationErrors (validation_inner e d)) \<and>
   (validate (schema e) d = Inr d \<and> (\<forall>inner. api_put e ''/profile'' (formData d) \<noteq> Inl (ValidationError inner)) \<longrightarrow>
      form_errors (handleProfile e d st) = Map.empty)"
proof (cases "validation_inner e d = []")
  case True
  note hp = handleProfile_valid [OF True]
  show ?thesis
  proof (cases "api_put e ''/profile'' (formData d)")
    case (Inl x)
    then show ?thesis using True
      by (cases x) (simp_all add: hp catch_err_def effect_defs validate_eq)
  next
    case (Inr u)
    then show ?thesis using True
      by (simp add: hp effect_defs validate_eq)
  qed
next
  case False
  note hp = handleProfile_invalid [OF False]
  from False show ?thesis
    by (simp add: hp effect_defs validate_eq)
qed

theorem handleProfile_resets_errors_witness:
  "form_errors state0 ''name'' = Some msg_nome_obrigatorio \<and>
   validate (schema env_ok) ana = Inr ana \<and>
   validate (schema env_down) ana = Inr ana \<and>
   form_errors (handleProfile env_ok ana state0) = Map.empty \<and>
   form_errors (handleProfile env_down ana state0) = Map.empty \<and>
   validate (schema env_ok) ana_mismatch =
     Inl (ValidationError [(''password_confirmation'', msg_confirmacao_incorreta)]) \<and>
   form_errors (handleProfile env_ok ana_mismatch state0) =
     getValidationErrors [(''password_confirmation'', msg_confirmacao_incorreta)]"
proof -
  have inner: "validation_inner env_ok ana = []" "validation_inner env_down ana = []"
    "validation_inner env_ok ana_mismatch =
       [(''password_confirmation'', msg_confirmacao_incorreta)]"
    by (simp_all add: validation_inner_eq ana_def ana_mismatch_def env_ok_def env_down_def
        has_at_def)
  have put: "api_put env_ok ''/profile'' (formData ana) = Inr updated_user"
    "api_put env_down ''/profile'' (formData ana) =
       Inl (OtherError ''Request failed with status code 500'')"
    by (simp_all add: env_ok_def env_down_def put_ok_def put_fails_def)
  have st: "form_errors state0 ''name'' = Some msg_nome_obrigatorio"
    by (simp add: state0_def stale_errors_def)
  show ?thesis
    using handleProfile_resets_errors [of env_ok ana state0 stale_errors "ValidationError []"]
      handleProfile_resets_errors [of env_down ana state0 stale_errors "ValidationError []"]
      handleProfile_resets_errors [of env_ok ana_mismatch state0 stale_errors
        "ValidationError [(''password_confirmation'', msg_confirmacao_incorreta)]"]
    by (simp add: validate_eq inner put st)
qed

subsection \<open>Avatar\<close>

text \<open>
  C7. The handlers run from the open modal. When the picker answers with a file URI,
  the request made is a \<^verbatim>\<open>PATCH\<close> to \<^verbatim>\<open>users/avatar\<close> whose form data has the single
  field \<^verbatim>\<open>avatar\<close>, of type \<^verbatim>\<open>image/jpeg\<close> and named by the user's id followed by
  \<^verbatim>\<open>.jpg\<close>, whatever the URI is. When the request succeeds, the session user is
  replaced with the response body and then the modal is closed. This holds for the
  camera and for the gallery.
\<close>

theorem avatar_upload:
  assumes "showModalUpdateAvatar st"
  shows
   "(uri (launchCamera e camera_options) = Some f \<longrightarrow>
       (\<exists>rest. trace (snd (updatePhotoFromCamera e st)) =
          trace st @ LaunchCamera camera_options #
            ApiPatch ''users/avatar''
              [(''avatar'', \<lparr>file_type = ''image/jpeg'',
                  file_name = user_id (session_user st) @ ''.jpg'', file_uri = Some f\<rparr>)] # rest) \<and>
       (api_patch e ''users/avatar''
          [(''avatar'', \<lparr>file_type = ''image/jpeg'',
              file_name = user_id (session_user st) @ ''.jpg'', file_uri = Some f\<rparr>)] = Inr u \<longrightarrow>
          fst (updatePhotoFromCamera e st) = None \<and>
          trace (snd (updatePhotoFromCamera e st)) =
            trace st @ [LaunchCamera camera_options,
              ApiPatch ''users/avatar''
                [(''avatar'', \<lparr>file_type = ''image/jpeg'',
                    file_name = user_id (session_user st) @ ''.jpg'', file_uri = Some f\<rparr>)],
              UpdateUser u, SetShowModalUpdateAvatar False] \<and>
          session_user (snd (updatePhotoFromCamera e st)) = u \<and>
          \<not> showModalUpdateAvatar (snd (updatePhotoFromCamera e st)))) \<and>
    (uri (launchImageLibrary e gallery_options) = Some f \<longrightarrow>
       (\<exists>rest. trace (snd (updatePhotoFromGallery e st)) =
          trace st @ LaunchImageLibrary gallery_options #
            ApiPatch ''users/avatar''
              [(''avatar'', \<lparr>file_type = ''image/jpeg'',
                  file_name = user_id (session_user st) @ ''.jpg'', file_uri = Some f\<rparr>)] # rest) \<and>
       (api_patch e ''users/avatar''
          [(''avatar'', \<lparr>file_type = ''image/jpeg'',
              file_name = user_id (session_user st) @ ''.jpg'', file_uri = Some f\<rparr>)] = Inr u \<longrightarrow>
          fst (updatePhotoFromGallery e st) = None \<and>
          trace (snd (updatePhotoFromGallery e st)) =
            trace st @ [LaunchImageLibrary gallery_options,
              ApiPatch ''users/avatar''
                [(''avatar'', \<lparr>file_type = ''image/jpeg'',
                    file_name = user_id (session_user st) @ ''.jpg'', file_uri = Some f\<rparr>)],
              UpdateUser u, SetShowModalUpdateAvatar False] \<and>
          session_user (snd (updatePhotoFromGallery e st)) = u \<and>
          \<not> showModalUpdateAvatar (snd (updatePhotoFromGallery e st))))"
  using assms
  by (auto simp add: updatePhotoFromCamera_def updatePhotoFromGallery_def camera_callback_def
      gallery_callback_def Let_def effect_defs split: sum.splits)

theorem avatar_upload_witness:
  "showModalUpdateAvatar state0 \<and>
   uri (launchCamera env_ok camera_options) = Some ''file:///tmp/photo.png'' \<and>
   uri (launchImageLibrary env_ok gallery_options) = Some ''file:///tmp/photo.png'' \<and>
   trace (snd (updatePhotoFromCamera env_ok state0)) =
     [LaunchCamera camera_options,
      ApiPatch ''users/avatar''
        [(''avatar'', \<lparr>file_type = ''image/jpeg'', file_name = ''42.jpg'',
            file_uri = Some ''file:///tmp/photo.png''\<rparr>)],
      UpdateUser updated_user, SetShowModalUpdateAvatar False] \<and>
   trace (snd (updatePhotoFromGallery env_ok state0)) =
     [LaunchImageLibrary gallery_options,
      ApiPatch ''users/avatar''
        [(''avatar'', \<lparr>file_type = ''image/jpeg'', file_name = ''42.jpg'',
            file_uri = Some ''file:///tmp/photo.png''\<rparr>)],
      UpdateUser updated_user, SetShowModalUpdateAvatar False] \<and>
   session_user (snd (updatePhotoFromCamera env_ok state0)) = updated_user \<and>
   \<not> showModalUpdateAvatar (snd (updatePhotoFromGallery env_ok state0))"
proof -
  have st: "showModalUpdateAvatar state0" "trace state0 = []"
    "user_id (session_user state0) = ''42''"
    by (simp_all add: state0_def sample_user_def)
  have pick: "uri (launchCamera env_ok camera_options) = Some ''file:///tmp/photo.png''"
    "uri (launchImageLibrary env_ok gallery_options) = Some ''file:///tmp/photo.png''"
    by (simp_all add: env_ok_def picked_def)
  have patch: "api_patch env_ok ''users/avatar''
      [(''avatar'', \<lparr>file_type = ''image/jpeg'', file_name = ''42.jpg'',
          file_uri = Some ''file:///tmp/photo.png''\<rparr>)] = Inr updated_user"
    by (simp add: env_ok_def patch_ok_def)
  show ?thesis
    using avatar_upload [OF st(1), of env_ok "''file:///tmp/photo.png''" updated_user]
    by (simp add: st pick patch)
qed

text \<open>
  C8. The callback of the camera handler and the callback of the gallery handler are
  the same function. Both pickers are launched with media type \<^verbatim>\<open>photo\<close> and quality
  one half, and the camera's options are the gallery's with \<^verbatim>\<open>saveToPhotos\<close> set. When
  the two pickers give the same response, the two handlers end with the same result
  and state, and with the same effects after the launch.
\<close>

theorem camera_gallery_equivalent:
  "camera_callback e uid c r st = gallery_callback e uid c r st \<and>
   mediaType camera_options = ''photo'' \<and> mediaType gallery_options = ''photo'' \<and>
   quality camera_options = 1 / 2 \<and> quality gallery_options = 1 / 2 \<and>
   saveToPhotos camera_options = Some True \<and> saveToPhotos gallery_options = None \<and>
   camera_options = gallery_options\<lparr>saveToPhotos := Some True\<rparr> \<and>
   (launchCamera e camera_options = launchImageLibrary e gallery_options \<longrightarrow>
      fst (updatePhotoFromCamera e st) = fst (updatePhotoFromGallery e st) \<and>
      session_user (snd (updatePhotoFromCamera e st)) = session_user (snd (updatePhotoFromGallery e st)) \<and>
      showModalUpdateAvatar (snd (updatePhotoFromCamera e st)) =
        showModalUpdateAvatar (snd (updatePhotoFromGallery e st)) \<and>
      form_values (snd (updatePhotoFromCamera e st)) = form_values (snd (updatePhotoFromGallery e st)) \<and>
      form_errors (snd (updatePhotoFromCamera e st)) = form_errors (snd (updatePhotoFromGallery e st)) \<and>
      (\<exists>rest.
         trace (snd (updatePhotoFromCamera e st)) = trace st @ LaunchCamera camera_options # rest \<and>
         trace (snd (updatePhotoFromGallery e st)) =
           trace st @ LaunchImageLibrary gallery_options # rest))"
  by (auto simp add: updatePhotoFromCamera_def updatePhotoFromGallery_def camera_callback_def
      gallery_callback_def Let_def camera_options_def gallery_options_def effect_defs split: sum.splits)

theorem camera_gallery_equivalent_witness:
  "launchCamera env_ok camera_options = launchImageLibrary env_ok gallery_options \<and>
   camera_callback env_ok ''42'' True (picked camera_options) state0 =
     gallery_callback env_ok ''42'' True (picked camera_options) state0 \<and>
   session_user (snd (updatePhotoFromCamera env_ok state0)) =
     session_user (snd (updatePhotoFromGallery env_ok state0)) \<and>
   fst (updatePhotoFromCamera env_ok state0) = fst (updatePhotoFromGallery env_ok state0)"
proof -
  have same: "launchCamera env_ok camera_options = launchImageLibrary env_ok gallery_options"
    by (simp add: env_ok_def picked_def)
  show ?thesis
    using same
      camera_gallery_equivalent [of env_ok "''42''" True "picked camera_options" state0]
    by simp
qed

text \<open>
  C9 does not hold as stated: with a picker that answers with a cancellation and no
  URI, the camera handler still sends the upload request.
\<close>

theorem cancel_uploads_counterexample:
  "didCancel (launchCamera env_cancel camera_options) \<and>
   uri (launchCamera env_cancel camera_options) = None \<and>
   trace (snd (updatePhotoFromCamera env_cancel state0)) =
     [LaunchCamera camera_options,
      ApiPatch ''users/avatar''
        [(''avatar'', \<lparr>file_type = ''image/jpeg'', file_name = ''42.jpg'', file_uri = None\<rparr>)]]"
  by (simp add: updatePhotoFromCamera_def camera_callback_def Let_def env_cancel_def
      cancelled_def patch_fails_def state0_def sample_user_def effect_defs)

text \<open>
  C9, amended. The callbacks do not look at the cancellation signal. When the picker
  answers with a cancellation and no URI, the handler still makes one \<^verbatim>\<open>PATCH\<close> to
  \<^verbatim>\<open>users/avatar\<close>, with the same \<^verbatim>\<open>avatar\<close> field and no URI in it, and it shows no
  alert. When that request is rejected, the rejection is not caught, nothing else
  happens, and the session user and the modal flag are as before. This holds for the
  camera and for the gallery.
\<close>

theorem cancel_not_inspected:
  assumes "didCancel r" and "uri r = None"
  shows
   "(launchCamera e camera_options = r \<longrightarrow>
       (\<exists>rest. trace (snd (updatePhotoFromCamera e st)) =
          trace st @ [LaunchCamera camera_options,
            ApiPatch ''users/avatar''
              [(''avatar'', \<lparr>file_type = ''image/jpeg'',
                  file_name = user_id (session_user st) @ ''.jpg'', file_uri = None\<rparr>)]] @ rest \<and>
          (\<forall>t b. AlertAlert t b \<notin> set rest)) \<and>
       (api_patch e ''users/avatar''
          [(''avatar'', \<lparr>file_type = ''image/jpeg'',
              file_name = user_id (session_user st) @ ''.jpg'', file_uri = None\<rparr>)] = Inl err \<longrightarrow>
          fst (updatePhotoFromCamera e st) = Some err \<and>
          trace (snd (updatePhotoFromCamera e st)) =
            trace st @ [LaunchCamera camera_options,
              ApiPatch ''users/avatar''
                [(''avatar'', \<lparr>file_type = ''image/jpeg'',
                    file_name = user_id (session_user st) @ ''.jpg'', file_uri = None\<rparr>)]] \<and>
          session_user (snd (updatePhotoFromCamera e st)) = session_user st \<and>
          showModalUpdateAvatar (snd (updatePhotoFromCamera e st)) = showModalUpdateAvatar st)) \<and>
    (launchImageLibrary e gallery_options = r \<longrightarrow>
       (\<exists>rest. trace (snd (updatePhotoFromGallery e st)) =
          trace st @ [LaunchImageLibrary gallery_options,
            ApiPatch ''users/avatar''
              [(''avatar'', \<lparr>file_type = ''image/jpeg'',
                  file_name = user_id (session_user st) @ ''.jpg'', file_uri = None\<rparr>)]] @ rest \<and>
          (\<forall>t b. AlertAlert t b \<notin> set rest)) \<and>
       (api_patch e ''users/avatar''
          [(''avatar'', \<lparr>file_type = ''image/jpeg'',
              file_name = user_id (session_user st) @ ''.jpg'', file_uri = None\<rparr>)] = Inl err \<longrightarrow>
          fst (updatePhotoFromGallery e st) = Some err \<and>
          trace (snd (updatePhotoFromGallery e st)) =
            trace st @ [LaunchImageLibrary gallery_options,
              ApiPatch ''users/avatar''
                [(''avatar'', \<lparr>file_type = ''image/jpeg'',
                    file_name = user_id (session_user st) @ ''.jpg'', file_uri = None\<rparr>)]] \<and>
          session_user (snd (updatePhotoFromGallery e st)) = session_user st \<and>
          showModalUpdateAvatar (snd (updatePhotoFromGallery e st)) = showModalUpdateAvatar st))"
  using assms
  by (auto simp add: updatePhotoFromCamera_def updatePhotoFromGallery_def camera_callback_def
      gallery_callback_def Let_def effect_defs split: sum.splits)

theorem cancel_not_inspected_witness:
  "didCancel (cancelled camera_options) \<and> uri (cancelled camera_options) = None \<and>
   launchCamera env_cancel camera_options = cancelled camera_options \<and>
   api_patch env_cancel ''users/avatar''
     [(''avatar'', \<lparr>file_type = ''image/jpeg'', file_name = ''42.jpg'', file_uri = None\<rparr>)] =
     Inl (OtherError ''Network Error'') \<and>
   fst (updatePhotoFromCamera env_cancel state0) = Some (OtherError ''Network Error'') \<and>
   session_user (snd (updatePhotoFromCamera env_cancel state0)) = sample_user \<and>
   showModalUpdateAvatar (snd (updatePhotoFromCamera env_cancel state0))"
proof -
  have r: "didCancel (cancelled camera_options)" "uri (cancelled camera_options) = None"
    by (simp_all add: cancelled_def)
  have pick: "launchCamera env_cancel camera_options = cancelled camera_options"
    by (simp add: env_cancel_def)
  have patch: "api_patch env_cancel ''users/avatar''
      [(''avatar'', \<lparr>file_type = ''image/jpeg'', file_name = ''42.jpg'', file_uri = None\<rparr>)] =
      Inl (OtherError ''Network Error'')"
    by (simp add: env_cancel_def patch_fails_def)
  have st: "user_id sample_user = ''42''" "session_user state0 = sample_user"
    "showModalUpdateAvatar state0" "trace state0 = []"
    by (simp_all add: state0_def sample_user_def)
  show ?thesis
    using cancel_not_inspected [OF r, of env_cancel state0 "OtherError ''Network Error''"]
    by (simp add: r pick patch st)
qed

end
